theory Spec2Isabelle
  imports Complex_Main
begin

section \<open>Conventions of the embedding\<close>

text \<open>
  The program is a Python script over NumPy arrays. The embedding keeps the names of
  \<^verbatim>\<open>src/main.py\<close> and makes explicit what Python leaves implicit:
  \<^item> a raised exception is a value \<open>Inl e\<close> of a sum type;
  \<^item> a float64 is idealised as a \<open>real\<close>; a float that is not finite (an infinity or a
    NaN, as NumPy produces when it divides by zero) is \<open>None\<close> of \<open>real option\<close>;
  \<^item> a matrix is the list of its rows;
  \<^item> the outcomes of \<^verbatim>\<open>np.random.choice\<close> are an argument of the model (one index
    list per iteration of the RANSAC loop);
  \<^item> the contents of a fresh \<^verbatim>\<open>np.empty\<close> array are an argument \<open>junk\<close>.
\<close>

datatype error =
    AssertionError
  | ValueError
  | IndexError
  | LinAlgError
  | OverflowError
  | UnboundLocalError
  | CvError

type_synonym vec = "real list"
type_synonym mat = "real list list"
type_synonym point = "real \<times> real"

section \<open>The N-image driver\<close>

text \<open>
  \<^verbatim>\<open>stitch_N_images\<close> works on file names: every pairwise stitch reads its two operands
  from disk, and the loop saves each result under the fixed name \<^verbatim>\<open>images12.png\<close>
  and stores that name into the list of paths. The file system is a map from names to
  images; the pairwise pipeline behind \<^verbatim>\<open>stitch_2_images\<close> (feature matching, RANSAC,
  warping, compositing) is the argument \<open>pair\<close>, so the driver is modelled for every
  such pipeline. The field \<open>calls\<close> records the operands of each call, in order.
\<close>

record 'img driver_state =
  paths :: "string list"
  files :: "string \<rightharpoonup> 'img"
  res :: "'img option"
  calls :: "(string \<times> string) list"

definition read_image :: "(string \<rightharpoonup> 'img) \<Rightarrow> string \<Rightarrow> error + 'img" where
  "read_image fs path = (case fs path of None \<Rightarrow> Inl CvError | Some img \<Rightarrow> Inr img)"

definition stitch_2_images ::
  "('img \<Rightarrow> 'img \<Rightarrow> error + 'img) \<Rightarrow> (string \<rightharpoonup> 'img) \<Rightarrow> string \<Rightarrow> string \<Rightarrow> error + 'img" where
  "stitch_2_images pair fs path_1 path_2 =
     (case read_image fs path_1 of
        Inl e \<Rightarrow> Inl e
      | Inr image_1 \<Rightarrow>
          (case read_image fs path_2 of
             Inl e \<Rightarrow> Inl e
           | Inr image_2 \<Rightarrow> pair image_1 image_2))"

definition out_name :: string where
  "out_name = ''images'' @ ''1'' @ ''2'' @ ''.png''"

fun stitch_loop ::
  "('img \<Rightarrow> 'img \<Rightarrow> error + 'img) \<Rightarrow> nat list \<Rightarrow> 'img driver_state \<Rightarrow> error + 'img driver_state" where
  "stitch_loop pair [] st = Inr st"
| "stitch_loop pair (i # is) st =
     (case stitch_2_images pair (files st) (paths st ! (i + 1)) (paths st ! i) of
        Inl e \<Rightarrow> Inl e
      | Inr r \<Rightarrow>
          stitch_loop pair is
            (st\<lparr>paths := (paths st)[i := out_name],
                files := (files st)(out_name \<mapsto> r),
                res := Some r,
                calls := calls st @ [(paths st ! (i + 1), paths st ! i)]\<rparr>))"

definition stitch_N_run ::
  "('img \<Rightarrow> 'img \<Rightarrow> error + 'img) \<Rightarrow> (string \<rightharpoonup> 'img) \<Rightarrow> string list \<Rightarrow> error + 'img driver_state" where
  "stitch_N_run pair fs ps =
     stitch_loop pair [0 ..< length ps - 1]
       \<lparr>paths = ps, files = fs, res = None, calls = []\<rparr>"

definition stitch_N_images ::
  "('img \<Rightarrow> 'img \<Rightarrow> error + 'img) \<Rightarrow> (string \<rightharpoonup> 'img) \<Rightarrow> string list \<Rightarrow> error + 'img" where
  "stitch_N_images pair fs ps =
     (case stitch_N_run pair fs ps of
        Inl e \<Rightarrow> Inl e
      | Inr st \<Rightarrow> (case res st of None \<Rightarrow> Inl UnboundLocalError | Some r \<Rightarrow> Inr r))"

definition three_files :: "'img \<Rightarrow> 'img \<Rightarrow> 'img \<Rightarrow> (string \<rightharpoonup> 'img)" where
  "three_files a b c = [''1.png'' \<mapsto> a, ''2.png'' \<mapsto> b, ''3.png'' \<mapsto> c]"

section \<open>Estimating a homography\<close>

text \<open>
  \<^verbatim>\<open>compute_points_mat\<close> allocates \<^verbatim>\<open>np.empty((2*len(src_points), 8))\<close> and fills two
  rows per pair of the \<^verbatim>\<open>zip\<close>, cell by cell. The contents of the fresh array are the
  argument \<open>junk\<close>; a chained assignment \<^verbatim>\<open>a = b = x\<close> stores into \<open>a\<close> first.
\<close>

definition np_empty :: "(nat \<Rightarrow> nat \<Rightarrow> real) \<Rightarrow> nat \<Rightarrow> nat \<Rightarrow> mat" where
  "np_empty junk m n = map (\<lambda>r. map (junk r) [0 ..< n]) [0 ..< m]"

definition set_cell :: "mat \<Rightarrow> nat \<times> nat \<times> real \<Rightarrow> mat" where
  "set_cell A = (\<lambda>(r, c, x). A[r := (A ! r)[c := x]])"

definition points_mat_step :: "mat \<times> nat \<Rightarrow> point \<times> point \<Rightarrow> mat \<times> nat" where
  "points_mat_step = (\<lambda>(A, row) ((x_s, y_s), (x_t, y_t)).
     (foldl set_cell A
        [(row, 0, x_s), (row + 1, 3, x_s),
         (row, 1, y_s), (row + 1, 4, y_s),
         (row, 2, 1), (row + 1, 5, 1),
         (row, 3, 0), (row, 4, 0), (row, 5, 0),
         (row + 1, 0, 0), (row + 1, 1, 0), (row + 1, 2, 0),
         (row, 6, - x_s * x_t),
         (row, 7, - y_s * x_t),
         (row + 1, 6, - x_s * y_t),
         (row + 1, 7, - y_s * y_t)],
      row + 2))"

definition compute_points_mat :: "(nat \<Rightarrow> nat \<Rightarrow> real) \<Rightarrow> point list \<Rightarrow> point list \<Rightarrow> mat" where
  "compute_points_mat junk src_points target_points =
     fst (foldl points_mat_step (np_empty junk (2 * length src_points) 8, 0)
            (zip src_points target_points))"

text \<open>
  \<^verbatim>\<open>np.linalg.lstsq(A, b, None)[0]\<close> is NumPy's: it raises \<^verbatim>\<open>LinAlgError\<close> when \<open>b\<close> has
  not as many entries as \<open>A\<close> has rows, and otherwise returns the least-squares
  solution of \<open>A x = b\<close> of minimum norm, for every \<open>A\<close>, rank-deficient or with fewer
  rows than columns included (then there is no exception: the result is the
  minimum-norm one; for an \<open>A\<close> without rows it is the zero vector). In exact arithmetic
  that solution is \<open>x = G z\<close> for any \<open>z\<close> with \<open>G (G z) = A\<^sup>T b\<close>, where \<open>G = A\<^sup>T A\<close>:
  such an \<open>x\<close> satisfies the normal equations \<open>G x = A\<^sup>T b\<close> and lies in the row space of
  \<open>A\<close>. The model computes \<open>z\<close> by Gauss-Jordan elimination, free unknowns set to \<open>0\<close>.
  The number of columns \<open>n\<close> is an argument, as a matrix without rows has columns too.
\<close>

definition dot :: "vec \<Rightarrow> vec \<Rightarrow> real" where
  "dot u v = sum_list (map2 (*) u v)"

definition mat_vec :: "mat \<Rightarrow> vec \<Rightarrow> vec" where
  "mat_vec A x = map (\<lambda>r. dot r x) A"

definition columns :: "nat \<Rightarrow> mat \<Rightarrow> mat" where
  "columns n A = map (\<lambda>j. map (\<lambda>r. r ! j) A) [0 ..< n]"

definition gram :: "nat \<Rightarrow> mat \<Rightarrow> mat" where
  "gram n A = (let C = columns n A in map (\<lambda>ci. map (\<lambda>cj. dot ci cj) C) C)"

definition reduce_row :: "nat \<Rightarrow> vec \<Rightarrow> vec \<Rightarrow> vec" where
  "reduce_row j p r = map2 (\<lambda>a b. a - (r ! j) * b) r p"

fun eliminate :: "nat list \<Rightarrow> (nat \<times> vec) list \<Rightarrow> mat \<Rightarrow> (nat \<times> vec) list" where
  "eliminate [] done rest = done"
| "eliminate (j # js) done rest =
     (case find (\<lambda>r. r ! j \<noteq> 0) rest of
        None \<Rightarrow> eliminate js done rest
      | Some q \<Rightarrow>
          (let p = map (\<lambda>x. x / (q ! j)) q
           in eliminate js
                ((j, p) # map (\<lambda>(k, r). (k, reduce_row j p r)) done)
                (map (reduce_row j p) (remove1 q rest))))"

definition solve :: "nat \<Rightarrow> mat \<Rightarrow> vec \<Rightarrow> vec" where
  "solve n M c =
     (let piv = eliminate [0 ..< n] [] (map2 (\<lambda>r x. r @ [x]) M c)
      in map (\<lambda>j. case map_of piv j of None \<Rightarrow> 0 | Some r \<Rightarrow> last r) [0 ..< n])"

definition lstsq :: "nat \<Rightarrow> mat \<Rightarrow> vec \<Rightarrow> error + vec" where
  "lstsq n A b =
     (if length b \<noteq> length A then Inl LinAlgError
      else let G = gram n A;
               c = mat_vec (columns n A) b;
               z = solve n (map (mat_vec G) G) c
           in Inr (mat_vec G z))"

definition flatten :: "point list \<Rightarrow> vec" where
  "flatten ps = concat (map (\<lambda>(x, y). [x, y]) ps)"

definition reshape_3_3 :: "vec \<Rightarrow> error + mat" where
  "reshape_3_3 h =
     (if length h \<noteq> 9 then Inl ValueError
      else Inr [take 3 h, take 3 (drop 3 h), drop 6 h])"

definition compute_homography_mat ::
  "(nat \<Rightarrow> nat \<Rightarrow> real) \<Rightarrow> point list \<Rightarrow> point list \<Rightarrow> error + mat" where
  "compute_homography_mat junk src_points target_points =
     (let A = compute_points_mat junk src_points target_points;
          b = flatten target_points
      in case lstsq 8 A b of
           Inl e \<Rightarrow> Inl e
         | Inr H \<Rightarrow> reshape_3_3 (H @ [1]))"

text \<open>The two rows that the loop of \<^verbatim>\<open>compute_points_mat\<close> writes for one pair.\<close>

definition pair_rows :: "point \<times> point \<Rightarrow> mat" where
  "pair_rows = (\<lambda>((x_s, y_s), (x_t, y_t)).
     [[x_s, y_s, 1, 0, 0, 0, - x_s * x_t, - y_s * x_t],
      [0, 0, 0, x_s, y_s, 1, - x_s * y_t, - y_s * y_t]])"

section \<open>Transforming points\<close>

text \<open>
  \<^verbatim>\<open>transform_points\<close> appends a 1 to every point, multiplies by the transpose of \<open>H\<close> and
  divides the first two components by the third. NumPy divides by zero without raising:
  the quotient is an infinity or a NaN, here \<open>None\<close>. Every \<open>H\<close> that reaches the function
  in this program has three rows of three entries.
\<close>

definition fdiv :: "real \<Rightarrow> real \<Rightarrow> real option" where
  "fdiv x y = (if y = 0 then None else Some (x / y))"

definition homogeneous :: "mat \<Rightarrow> point \<Rightarrow> vec" where
  "homogeneous H = (\<lambda>(u, v). map (dot [u, v, 1]) H)"

definition transform_points :: "point list \<Rightarrow> mat \<Rightarrow> (real option \<times> real option) list" where
  "transform_points points H =
     map (\<lambda>p. let m = homogeneous H p in (fdiv (m ! 0) (m ! 2), fdiv (m ! 1) (m ! 2))) points"

section \<open>RANSAC\<close>

text \<open>
  The points handed to \<^verbatim>\<open>get_inliers\<close> are Python values: tuples (or lists) of two
  numbers, or NumPy arrays. The type test \<^verbatim>\<open>type(p) != np.ndarray\<close> tells them apart, so
  the model tags each point with its Python type.
\<close>

datatype pypoint = Tuple real real | NdArray real real

fun is_ndarray :: "pypoint \<Rightarrow> bool" where
  "is_ndarray (Tuple x y) = False"
| "is_ndarray (NdArray x y) = True"

fun coords :: "pypoint \<Rightarrow> point" where
  "coords (Tuple x y) = (x, y)"
| "coords (NdArray x y) = (x, y)"

text \<open>
  \<^verbatim>\<open>np.concatenate([np.expand_dims(np.array(p),0) for p in ps if type(p) != np.ndarray], 0)\<close>:
  the comprehension keeps the points that are not arrays, and \<^verbatim>\<open>np.concatenate\<close> raises
  \<^verbatim>\<open>ValueError\<close> on an empty list.
\<close>

definition keep_points :: "pypoint list \<Rightarrow> error + point list" where
  "keep_points ps =
     (let kept = map coords (filter (\<lambda>p. \<not> is_ndarray p) ps)
      in if kept = [] then Inl ValueError else Inr kept)"

text \<open>Indexing an array with an array of indices; an index out of range raises.\<close>

definition take_rows :: "'a list \<Rightarrow> nat list \<Rightarrow> error + 'a list" where
  "take_rows xs idx =
     (if \<exists>i \<in> set idx. length xs \<le> i then Inl IndexError else Inr (map (\<lambda>i. xs ! i) idx))"

text \<open>
  \<^verbatim>\<open>mapped_points - target_points\<close> on arrays of shapes \<open>(m, 2)\<close> and \<open>(n, 2)\<close>: NumPy pairs
  the rows when \<open>m = n\<close>, repeats the single row when one of them has one row, and raises
  \<^verbatim>\<open>ValueError\<close> otherwise.
\<close>

definition broadcast_rows :: "'a list \<Rightarrow> 'b list \<Rightarrow> error + ('a \<times> 'b) list" where
  "broadcast_rows xs ys =
     (if length xs = length ys then Inr (zip xs ys)
      else if length xs = 1 then Inr (map (\<lambda>y. (hd xs, y)) ys)
      else if length ys = 1 then Inr (map (\<lambda>x. (x, hd ys)) xs)
      else Inl ValueError)"

text \<open>
  The Euclidean norm of a row of the difference. A component that is not finite makes the
  norm an infinity or a NaN, and the comparison \<^verbatim>\<open>dist <= d\<close> with a number \<open>d\<close> false.
\<close>

definition row_dist :: "(real option \<times> real option) \<times> point \<Rightarrow> real option" where
  "row_dist = (\<lambda>((mx, my), (tx, ty)).
     case mx of
       None \<Rightarrow> None
     | Some x \<Rightarrow> (case my of None \<Rightarrow> None | Some y \<Rightarrow> Some (sqrt ((x - tx)\<^sup>2 + (y - ty)\<^sup>2))))"

definition dist_le :: "real \<Rightarrow> real option \<Rightarrow> bool" where
  "dist_le d r = (case r of None \<Rightarrow> False | Some x \<Rightarrow> x \<le> d)"

text \<open>
  The second half of the closure \<^verbatim>\<open>_get_inlier_indices\<close>: the indices of the points that
  a given \<open>H\<close> maps to within \<open>d\<close> of their targets (\<^verbatim>\<open>np.where(dist <= d)[0]\<close>).
\<close>

definition inliers_under :: "mat \<Rightarrow> point list \<Rightarrow> point list \<Rightarrow> real \<Rightarrow> error + nat list" where
  "inliers_under H src_points target_points d =
     (case broadcast_rows (transform_points src_points H) target_points of
        Inl e \<Rightarrow> Inl e
      | Inr rows \<Rightarrow>
          (let dists = map row_dist rows
           in Inr (filter (\<lambda>i. dist_le d (dists ! i)) [0 ..< length dists])))"

definition get_inlier_indices ::
  "(nat \<Rightarrow> nat \<Rightarrow> real) \<Rightarrow> point list \<Rightarrow> point list \<Rightarrow> real \<Rightarrow> nat list \<Rightarrow> error + nat list" where
  "get_inlier_indices junk src_points target_points d indices =
     (case take_rows src_points indices of
        Inl e \<Rightarrow> Inl e
      | Inr s_sel \<Rightarrow>
          (case take_rows target_points indices of
             Inl e \<Rightarrow> Inl e
           | Inr t_sel \<Rightarrow>
               (case compute_homography_mat junk s_sel t_sel of
                  Inl e \<Rightarrow> Inl e
                | Inr H \<Rightarrow> inliers_under H src_points target_points d)))"

text \<open>
  The loop \<^verbatim>\<open>for _ in range(N)\<close>. The state is the pair of the two history lists. The
  sample of iteration \<open>k\<close> is \<open>choice k\<close>, the outcome of
  \<^verbatim>\<open>np.random.choice(len(src_points), s, replace=False)\<close>, which raises \<^verbatim>\<open>ValueError\<close> when
  \<open>s\<close> exceeds the number of points.
\<close>

fun ransac_loop ::
  "(nat \<Rightarrow> nat \<Rightarrow> real) \<Rightarrow> (nat \<Rightarrow> nat list) \<Rightarrow> point list \<Rightarrow> point list \<Rightarrow> real \<Rightarrow> nat \<Rightarrow> nat
     \<Rightarrow> nat list \<Rightarrow> nat list list \<times> nat list \<Rightarrow> error + nat list list \<times> nat list" where
  "ransac_loop junk choice src tgt d s T [] hist = Inr hist"
| "ransac_loop junk choice src tgt d s T (k # ks) hist =
     (if length src < s then Inl ValueError
      else
        (case get_inlier_indices junk src tgt d (choice k) of
           Inl e \<Rightarrow> Inl e
         | Inr inlier_indices \<Rightarrow>
             (let hist1 = (fst hist @ [inlier_indices], snd hist @ [length inlier_indices])
              in if T \<le> last (snd hist1)
                 then
                   (case get_inlier_indices junk src tgt d inlier_indices of
                      Inl e \<Rightarrow> Inl e
                    | Inr refined \<Rightarrow>
                        ransac_loop junk choice src tgt d s T ks
                          (fst hist1 @ [refined], snd hist1 @ [length refined]))
                 else ransac_loop junk choice src tgt d s T ks hist1)))"

text \<open>\<^verbatim>\<open>np.argmax\<close>: the first position of the maximum; it raises on an empty array.\<close>

fun argmax_from :: "nat \<Rightarrow> nat \<Rightarrow> nat \<Rightarrow> nat list \<Rightarrow> nat" where
  "argmax_from best_i best_v i [] = best_i"
| "argmax_from best_i best_v i (x # xs) =
     (if best_v < x then argmax_from i x (i + 1) xs else argmax_from best_i best_v (i + 1) xs)"

definition np_argmax :: "nat list \<Rightarrow> error + nat" where
  "np_argmax xs = (case xs of [] \<Rightarrow> Inl ValueError | x # rest \<Rightarrow> Inr (argmax_from 0 x 1 rest))"

text \<open>
  \<^verbatim>\<open>get_inliers(src_points, target_points, d, s, N, T)\<close>. The argument \<open>T\<close> is overwritten
  before it is read. The history of index arrays is kept as a list of lists (the array of
  arrays that \<^verbatim>\<open>np.array\<close> builds from it is indexed once, by the position of the maximum).
\<close>

definition get_inliers ::
  "(nat \<Rightarrow> nat \<Rightarrow> real) \<Rightarrow> (nat \<Rightarrow> nat list) \<Rightarrow> pypoint list \<Rightarrow> pypoint list \<Rightarrow> real \<Rightarrow> nat \<Rightarrow> nat
     \<Rightarrow> nat option \<Rightarrow> error + point list \<times> point list" where
  "get_inliers junk choice src_points target_points d s N T =
     (if length src_points \<noteq> length target_points then Inl AssertionError
      else
        (case keep_points src_points of
           Inl e \<Rightarrow> Inl e
         | Inr src \<Rightarrow>
             (case keep_points target_points of
                Inl e \<Rightarrow> Inl e
              | Inr tgt \<Rightarrow>
                  (let T = min (length src) 10
                   in case ransac_loop junk choice src tgt d s T [0 ..< N] ([], []) of
                        Inl e \<Rightarrow> Inl e
                      | Inr (samples_indices_history, num_inliers_history) \<Rightarrow>
                          (case np_argmax num_inliers_history of
                             Inl e \<Rightarrow> Inl e
                           | Inr k \<Rightarrow>
                               (let best_indices = samples_indices_history ! k
                                in case take_rows src best_indices of
                                     Inl e \<Rightarrow> Inl e
                                   | Inr src_best \<Rightarrow>
                                       (case take_rows tgt best_indices of
                                          Inl e \<Rightarrow> Inl e
                                        | Inr tgt_best \<Rightarrow> Inr (src_best, tgt_best))))))))"

section \<open>Warping\<close>

text \<open>
  \<^verbatim>\<open>transform_grid\<close>: the grid of \<^verbatim>\<open>np.meshgrid(u_range, v_range)\<close>, flattened row by row
  (\<open>v\<close> outer, \<open>u\<close> inner), and its image under \<open>H\<close>.
\<close>

definition transform_grid ::
  "int list \<Rightarrow> int list \<Rightarrow> mat \<Rightarrow> (int \<times> int) list \<times> (real option \<times> real option) list" where
  "transform_grid u_range v_range H =
     (let points = concat (map (\<lambda>v. map (\<lambda>u. (u, v)) u_range) v_range)
      in (points, transform_points (map (\<lambda>(u, v). (real_of_int u, real_of_int v)) points) H))"

text \<open>
  Python's \<^verbatim>\<open>int(x)\<close> on a float drops the fractional part (it rounds toward zero); on an
  infinity or a NaN it raises.
\<close>

definition py_int :: "real \<Rightarrow> int" where
  "py_int x = (if x < 0 then - \<lfloor>- x\<rfloor> else \<lfloor>x\<rfloor>)"

text \<open>
  \<^verbatim>\<open>np.min\<close> and \<^verbatim>\<open>np.max\<close> of one column of the mapped grid. They raise \<^verbatim>\<open>ValueError\<close> on
  an empty array. When the column holds a value that is not finite, one of the two
  extremes is not finite either (a NaN makes both NaN, an infinity is itself an extreme)
  and its conversion by \<^verbatim>\<open>int\<close> raises (\<^verbatim>\<open>ValueError\<close> for a NaN, \<^verbatim>\<open>OverflowError\<close> for an
  infinity); the model reports \<open>OverflowError\<close> for both.
\<close>

definition column_extremes :: "real option list \<Rightarrow> error + real \<times> real" where
  "column_extremes xs =
     (case xs of
        [] \<Rightarrow> Inl ValueError
      | x # rest \<Rightarrow>
          (case those xs of
             None \<Rightarrow> Inl OverflowError
           | Some ys \<Rightarrow> Inr (foldl min (hd ys) (tl ys), foldl max (hd ys) (tl ys))))"

text \<open>
  The four bounds of \<^verbatim>\<open>warp_image\<close>, in the order of the source:
  \<^verbatim>\<open>min_u, max_u, min_v, max_v = int(np.min(..[:,0])), int(np.max(..[:,0])), ...\<close>.
\<close>

definition warp_bounds :: "nat \<Rightarrow> nat \<Rightarrow> mat \<Rightarrow> error + int \<times> int \<times> int \<times> int" where
  "warp_bounds rows cols H =
     (let transformed_image = snd (transform_grid (map int [0 ..< cols]) (map int [0 ..< rows]) H)
      in case column_extremes (map fst transformed_image) of
           Inl e \<Rightarrow> Inl e
         | Inr (lo_u, hi_u) \<Rightarrow>
             (case column_extremes (map snd transformed_image) of
                Inl e \<Rightarrow> Inl e
              | Inr (lo_v, hi_v) \<Rightarrow> Inr (py_int lo_u, py_int hi_u, py_int lo_v, py_int hi_v)))"

text \<open>
  \<^verbatim>\<open>np.linalg.inv\<close> of a 3x3 matrix: the adjugate over the determinant, \<^verbatim>\<open>LinAlgError\<close>
  for a singular matrix.
\<close>

definition det3 :: "mat \<Rightarrow> real" where
  "det3 H =
     H ! 0 ! 0 * (H ! 1 ! 1 * H ! 2 ! 2 - H ! 1 ! 2 * H ! 2 ! 1)
     - H ! 0 ! 1 * (H ! 1 ! 0 * H ! 2 ! 2 - H ! 1 ! 2 * H ! 2 ! 0)
     + H ! 0 ! 2 * (H ! 1 ! 0 * H ! 2 ! 1 - H ! 1 ! 1 * H ! 2 ! 0)"

definition adjugate3 :: "mat \<Rightarrow> mat" where
  "adjugate3 H =
     [[H ! 1 ! 1 * H ! 2 ! 2 - H ! 1 ! 2 * H ! 2 ! 1,
       H ! 0 ! 2 * H ! 2 ! 1 - H ! 0 ! 1 * H ! 2 ! 2,
       H ! 0 ! 1 * H ! 1 ! 2 - H ! 0 ! 2 * H ! 1 ! 1],
      [H ! 1 ! 2 * H ! 2 ! 0 - H ! 1 ! 0 * H ! 2 ! 2,
       H ! 0 ! 0 * H ! 2 ! 2 - H ! 0 ! 2 * H ! 2 ! 0,
       H ! 0 ! 2 * H ! 1 ! 0 - H ! 0 ! 0 * H ! 1 ! 2],
      [H ! 1 ! 0 * H ! 2 ! 1 - H ! 1 ! 1 * H ! 2 ! 0,
       H ! 0 ! 1 * H ! 2 ! 0 - H ! 0 ! 0 * H ! 2 ! 1,
       H ! 0 ! 0 * H ! 1 ! 1 - H ! 0 ! 1 * H ! 1 ! 0]]"

definition np_linalg_inv :: "mat \<Rightarrow> error + mat" where
  "np_linalg_inv H =
     (if det3 H = 0 then Inl LinAlgError
      else Inr (map (map (\<lambda>x. x / det3 H)) (adjugate3 H)))"

text \<open>
  \<^verbatim>\<open>H_inv / H_inv[2,2]\<close>. When \<^verbatim>\<open>H_inv[2,2]\<close> is zero every entry of the quotient is an
  infinity or a NaN, and so is every coordinate computed from it (\<open>None\<close> below): each
  homogeneous component is a sum of products with such entries, and the quotient of two
  of them is a NaN.
\<close>

definition normalise :: "mat \<Rightarrow> mat option" where
  "normalise M = (if M ! 2 ! 2 = 0 then None else Some (map (map (\<lambda>x. x / (M ! 2 ! 2))) M))"

definition transform_grid_opt ::
  "int list \<Rightarrow> int list \<Rightarrow> mat option \<Rightarrow> (int \<times> int) list \<times> (real option \<times> real option) list" where
  "transform_grid_opt u_range v_range M =
     (case M of
        Some H \<Rightarrow> transform_grid u_range v_range H
      | None \<Rightarrow>
          (let points = concat (map (\<lambda>v. map (\<lambda>u. (u, v)) u_range) v_range)
           in (points, map (\<lambda>p. (None, None)) points)))"

text \<open>
  An image is an array of shape \<open>(height, width, 3)\<close>: \<open>pixel img v u c\<close> is \<^verbatim>\<open>img[v, u, c]\<close>.
  The pixels of a warped image are values of the interpolant, which need not be finite.
\<close>

record 'a image =
  height :: nat
  width :: nat
  pixel :: "nat \<Rightarrow> nat \<Rightarrow> nat \<Rightarrow> 'a"

definition np_zeros :: "nat \<Rightarrow> nat \<Rightarrow> real option image" where
  "np_zeros h w = \<lparr>height = h, width = w, pixel = (\<lambda>v u c. Some 0)\<rparr>"

definition set_pixel :: "'a image \<Rightarrow> nat \<Rightarrow> nat \<Rightarrow> nat \<Rightarrow> 'a \<Rightarrow> 'a image" where
  "set_pixel t v u c x =
     t\<lparr>pixel := (\<lambda>v' u' c'. if v' = v \<and> u' = u \<and> c' = c then x else pixel t v' u' c')\<rparr>"

text \<open>
  \<^verbatim>\<open>RectBivariateSpline(orig_v_range, orig_u_range, image[:,:,channel])\<close> is SciPy's; the
  model takes the interpolant as the argument \<open>spline\<close>: \<open>spline img channel v u\<close> is the
  value \<^verbatim>\<open>I_cont(v, u, grid=False)\<close> of the spline fitted to that channel. SciPy refuses to
  fit a bicubic spline to fewer than 4 rows or columns.

  \<^verbatim>\<open>fill_channel\<close> evaluates the spline batch by batch and stores each value at the row
  \<open>v - min_v\<close> and the column \<open>u - min_u\<close> of the target.
\<close>

type_synonym interpolant = "real image \<Rightarrow> nat \<Rightarrow> real option \<Rightarrow> real option \<Rightarrow> real option"

definition fill_batch ::
  "interpolant \<Rightarrow> real image \<Rightarrow> int \<Rightarrow> int \<Rightarrow> nat
     \<Rightarrow> real option image \<Rightarrow> ((int \<times> int) \<times> (real option \<times> real option)) list \<Rightarrow> real option image" where
  "fill_batch spline img min_u min_v channel =
     foldl (\<lambda>target ((u, v), (mapped_u, mapped_v)).
        set_pixel target (nat (v - min_v)) (nat (u - min_u)) channel
          (spline img channel mapped_v mapped_u))"

definition fill_channel ::
  "interpolant \<Rightarrow> real image \<Rightarrow> int \<Rightarrow> int \<Rightarrow> (int \<times> int) list \<Rightarrow> (real option \<times> real option) list
     \<Rightarrow> real option image \<Rightarrow> nat \<Rightarrow> nat \<Rightarrow> error + real option image" where
  "fill_channel spline img min_u min_v transformed_points inv_transformed_image
       target channel batch_size =
     (if height img < 4 \<or> width img < 4 then Inl ValueError
      else
        (let n_iters = length inv_transformed_image div batch_size
         in Inr (foldl (\<lambda>target i.
                   let start = i * batch_size;
                       stop = (i + 1) * batch_size
                   in fill_batch spline img min_u min_v channel target
                        (zip (take (stop - start) (drop start transformed_points))
                             (take (stop - start) (drop start inv_transformed_image))))
                 target [0 ..< n_iters + 1])))"

definition warp_image ::
  "interpolant \<Rightarrow> real image \<Rightarrow> mat \<Rightarrow> error + real option image \<times> int \<times> int" where
  "warp_image spline img H =
     (if length H \<noteq> 3 \<or> (\<exists>r \<in> set H. length r \<noteq> 3) then Inl ValueError
      else
        (case np_linalg_inv H of
           Inl e \<Rightarrow> Inl e
         | Inr H_inv0 \<Rightarrow>
             (let H_inv = normalise H_inv0
              in case warp_bounds (height img) (width img) H of
                   Inl e \<Rightarrow> Inl e
                 | Inr (min_u, max_u, min_v, max_v) \<Rightarrow>
                     (let mapped_u_range = [min_u .. max_u - 1];
                          mapped_v_range = [min_v .. max_v - 1];
                          target_image = np_zeros (nat (max_v - min_v)) (nat (max_u - min_u));
                          grid = transform_grid_opt mapped_u_range mapped_v_range H_inv
                      in case fill_channel spline img min_u min_v (fst grid) (snd grid)
                                target_image 0 64 of
                           Inl e \<Rightarrow> Inl e
                         | Inr t0 \<Rightarrow>
                             (case fill_channel spline img min_u min_v (fst grid) (snd grid)
                                     t0 1 64 of
                                Inl e \<Rightarrow> Inl e
                              | Inr t1 \<Rightarrow>
                                  (case fill_channel spline img min_u min_v (fst grid) (snd grid)
                                          t1 2 64 of
                                     Inl e \<Rightarrow> Inl e
                                   | Inr t2 \<Rightarrow> Inr (t2, min_u, min_v)))))))"


section \<open>Concrete inputs\<close>

text \<open>A homography that sends the points of the line \<open>u = 1\<close> to infinity.\<close>

definition H_inf :: mat where
  "H_inf = [[1, 0, 0], [0, 1, 0], [1, 0, -1]]"

text \<open>
  Four correspondences whose source points coincide, and an outcome of
  \<^verbatim>\<open>np.random.choice(L, s, replace=False)\<close>: \<open>s\<close> distinct indices below \<open>L\<close>.
\<close>

definition coincident_src :: "pypoint list" where
  "coincident_src = [Tuple 0 0, Tuple 0 0, Tuple 0 0, Tuple 0 0]"

definition spread_tgt :: "pypoint list" where
  "spread_tgt = [Tuple 0 0, Tuple 10 0, Tuple 0 10, Tuple 10 10]"

definition valid_sample :: "nat \<Rightarrow> nat \<Rightarrow> nat list \<Rightarrow> bool" where
  "valid_sample L s idx = (length idx = s \<and> distinct idx \<and> list_all (\<lambda>i. i < L) idx)"

definition alternating_choice :: "nat \<Rightarrow> nat list" where
  "alternating_choice k = (if even k then [0, 1, 2, 3] else [3, 1, 0, 2])"

text \<open>The two arrays that \<^verbatim>\<open>get_inliers\<close> builds from these lists.\<close>

definition src4 :: "point list" where
  "src4 = [(0, 0), (0, 0), (0, 0), (0, 0)]"

definition tgt4 :: "point list" where
  "tgt4 = [(0, 0), (10, 0), (0, 10), (10, 10)]"

text \<open>
  Homographies for the warp: the identity and two translations by half-integers; an
  interpolant that reads the pixel at the floor of the coordinates; a 4x4 image.
\<close>

definition identity3 :: mat where
  "identity3 = [[1, 0, 0], [0, 1, 0], [0, 0, 1]]"



definition nearest_spline :: interpolant where
  "nearest_spline img channel v u =
     (case v of
        None \<Rightarrow> None
      | Some y \<Rightarrow> (case u of None \<Rightarrow> None | Some x \<Rightarrow> Some (pixel img (nat \<lfloor>y\<rfloor>) (nat \<lfloor>x\<rfloor>) channel)))"

definition ramp_image :: "real image" where
  "ramp_image = \<lparr>height = 4, width = 4, pixel = (\<lambda>v u c. real (4 * v + u) / 16)\<rparr>"

section \<open>Theorems\<close>

subsection \<open>The N-image driver\<close>

lemma upt_3: "[0 ..< 3 - 1] = [0, Suc 0]"
  by (simp add: upt_rec)

text \<open>
  C1. The claim: for N images the driver performs N-1 pairwise stitches and each
  stitch's output is the left operand of the next one. On the three images
  \<^verbatim>\<open>1.png\<close>, \<^verbatim>\<open>2.png\<close>, \<^verbatim>\<open>3.png\<close> the driver does perform two stitches, but the second
  one reads \<^verbatim>\<open>3.png\<close> and the original \<^verbatim>\<open>2.png\<close>: the first result was stored into
  \<open>paths[0]\<close>, which no later iteration reads. The value returned is the stitch of the
  third and second input images, whatever the first stitch produced.
\<close>

theorem stitch_N_images_three_not_fed_forward:
  "stitch_N_images pair (three_files a b c) [''1.png'', ''2.png'', ''3.png'']
     = (case pair b a of Inl e \<Rightarrow> Inl e | Inr r1 \<Rightarrow> pair c b)
   \<and> map_sum id (\<lambda>st. (calls st, paths st, files st ''images12.png'' = res st))
         (stitch_N_run pair (three_files a b c) [''1.png'', ''2.png'', ''3.png''])
     = (case pair b a of
          Inl e \<Rightarrow> Inl e
        | Inr r1 \<Rightarrow>
            (case pair c b of
               Inl e \<Rightarrow> Inl e
             | Inr r2 \<Rightarrow>
                 Inr ([(''2.png'', ''1.png''), (''3.png'', ''2.png'')],
                      [''images12.png'', ''images12.png'', ''3.png''],
                      True)))"
  by (cases "pair b a"; cases "pair c b")
     (simp_all add: stitch_N_images_def stitch_N_run_def upt_3 stitch_2_images_def
        read_image_def three_files_def out_name_def)

subsection \<open>RANSAC\<close>

text \<open>
  C9. The result of \<^verbatim>\<open>get_inliers\<close> does not depend on its argument \<open>T\<close>: any two
  values passed as \<open>T\<close> give the same result (or the same exception), for every input and
  every outcome of the random choices, because the threshold of the refinement pass is
  recomputed as the minimum of the number of kept points and 10 before it is read.
\<close>

theorem get_inliers_ignores_T:
  "get_inliers junk choice src_points target_points d s N T1
     = get_inliers junk choice src_points target_points d s N T2"
  by (simp add: get_inliers_def)





text \<open>
  C7. A point whose third homogeneous component under \<open>H\<close> is zero is mapped to
  non-finite coordinates, without an exception, and the inlier computation returns a list
  of indices that does not contain the point, for every distance bound \<open>d\<close>.
\<close>

theorem zero_third_component_excluded:
  assumes len: "length src = length tgt" and i: "i < length src"
    and zero: "homogeneous H (src ! i) ! 2 = 0"
  shows "\<exists>ins. inliers_under H src tgt d = Inr ins \<and> i \<notin> set ins
           \<and> transform_points src H ! i = (None, None)"
proof -
  have tp: "transform_points src H ! i = (None, None)"
    using i zero by (simp add: transform_points_def Let_def fdiv_def)
  have bc: "broadcast_rows (transform_points src H) tgt = Inr (zip (transform_points src H) tgt)"
    using len by (simp add: broadcast_rows_def transform_points_def)
  have "row_dist (zip (transform_points src H) tgt ! i) = None"
    using i len tp by (simp add: row_dist_def transform_points_def)
  then have "\<not> dist_le d (map row_dist (zip (transform_points src H) tgt) ! i)"
    using i len by (simp add: dist_le_def transform_points_def)
  then show ?thesis
    using bc tp by (simp add: inliers_under_def Let_def)
qed

theorem zero_third_component_excluded_witness:
  "\<exists>ins. inliers_under H_inf [(1, 0), (0, 0)] [(1, 0), (0, 0)] 1 = Inr ins \<and> 0 \<notin> set ins
          \<and> transform_points [(1, 0), (0, 0)] H_inf ! 0 = (None, None)"
  using zero_third_component_excluded [of "[(1, 0), (0, 0)]" "[(1, 0), (0, 0)]" 0 H_inf 1]
  by (simp add: homogeneous_def H_inf_def dot_def)

subsection \<open>The estimation system\<close>

lemma set_cell_first:
  assumes "Suc row < length A"
  shows "set_cell (A[row := a, Suc row := b]) (row, c, x) = A[row := a[c := x], Suc row := b]"
proof -
  have "A[row := a, Suc row := b] ! row = a" using assms by simp
  then have "set_cell (A[row := a, Suc row := b]) (row, c, x)
      = A[row := a, Suc row := b, row := a[c := x]]"
    by (simp add: set_cell_def)
  also have "\<dots> = A[row := a[c := x], Suc row := b]"
    by (simp add: list_update_swap [of row "Suc row"])
  finally show ?thesis .
qed

lemma set_cell_second:
  assumes "Suc row < length A"
  shows "set_cell (A[row := a, Suc row := b]) (Suc row, c, x) = A[row := a, Suc row := b[c := x]]"
  using assms by (simp add: set_cell_def)

lemma length_8_explicit:
  assumes "length (r :: 'a list) = 8"
  obtains a0 a1 a2 a3 a4 a5 a6 a7 where "r = [a0, a1, a2, a3, a4, a5, a6, a7]"
proof -
  from assms obtain a0 r1 where 0: "r = a0 # r1" "length r1 = 7" by (cases r) auto
  then obtain a1 r2 where 1: "r1 = a1 # r2" "length r2 = 6" by (cases r1) auto
  then obtain a2 r3 where 2: "r2 = a2 # r3" "length r3 = 5" by (cases r2) auto
  then obtain a3 r4 where 3: "r3 = a3 # r4" "length r4 = 4" by (cases r3) auto
  then obtain a4 r5 where 4: "r4 = a4 # r5" "length r5 = 3" by (cases r4) auto
  then obtain a5 r6 where 5: "r5 = a5 # r6" "length r6 = 2" by (cases r5) auto
  then obtain a6 r7 where 6: "r6 = a6 # r7" "length r7 = 1" by (cases r6) auto
  then obtain a7 where 7: "r7 = [a7]" by (cases r7) auto
  show ?thesis using that 0 1 2 3 4 5 6 7 by simp
qed

lemma points_mat_step_rows:
  assumes row: "Suc row < length A" and l0: "length (A ! row) = 8" and l1: "length (A ! Suc row) = 8"
  shows "points_mat_step (A, row) p
           = (A[row := pair_rows p ! 0, Suc row := pair_rows p ! 1], row + 2)"
proof -
  obtain x_s y_s x_t y_t where p: "p = ((x_s, y_s), (x_t, y_t))" by (cases p) auto
  obtain a0 a1 a2 a3 a4 a5 a6 a7 where a: "A ! row = [a0, a1, a2, a3, a4, a5, a6, a7]"
    using l0 by (rule length_8_explicit)
  obtain b0 b1 b2 b3 b4 b5 b6 b7 where b: "A ! Suc row = [b0, b1, b2, b3, b4, b5, b6, b7]"
    using l1 by (rule length_8_explicit)
  have A: "A = A[row := [a0, a1, a2, a3, a4, a5, a6, a7], Suc row := [b0, b1, b2, b3, b4, b5, b6, b7]]"
    using a b by (metis list_update_id)
  have "foldl set_cell (A[row := [a0, a1, a2, a3, a4, a5, a6, a7], Suc row := [b0, b1, b2, b3, b4, b5, b6, b7]])
        [(row, 0, x_s), (Suc row, 3, x_s),
         (row, 1, y_s), (Suc row, 4, y_s),
         (row, 2, 1), (Suc row, 5, 1),
         (row, 3, 0), (row, 4, 0), (row, 5, 0),
         (Suc row, 0, 0), (Suc row, 1, 0), (Suc row, 2, 0),
         (row, 6, - x_s * x_t),
         (row, 7, - y_s * x_t),
         (Suc row, 6, - x_s * y_t),
         (Suc row, 7, - y_s * y_t)]
     = A[row := [x_s, y_s, 1, 0, 0, 0, - x_s * x_t, - y_s * x_t],
         Suc row := [0, 0, 0, x_s, y_s, 1, - x_s * y_t, - y_s * y_t]]"
    using row by (simp add: set_cell_first set_cell_second)
  then show ?thesis
    using A by (simp add: points_mat_step_def p pair_rows_def)
qed

lemma pair_rows_shape: "length (pair_rows p) = 2 \<and> (\<forall>r \<in> set (pair_rows p). length r = 8)"
  by (cases p) (auto simp: pair_rows_def)

lemma pair_rows_as_list: "pair_rows p = [pair_rows p ! 0, pair_rows p ! 1]"
  by (cases p) (auto simp: pair_rows_def)

lemma foldl_points_mat_step:
  assumes "\<forall>r \<in> set A. length r = 8" "row + 2 * length ps \<le> length A"
  shows "foldl points_mat_step (A, row) ps
           = (take row A @ concat (map pair_rows ps) @ drop (row + 2 * length ps) A,
              row + 2 * length ps)"
  using assms
proof (induction ps arbitrary: A row)
  case Nil
  then show ?case by simp
next
  case (Cons p ps)
  let ?A = "A[row := pair_rows p ! 0, Suc row := pair_rows p ! 1]"
  have row: "Suc row < length A" using Cons.prems(2) by simp
  have step: "points_mat_step (A, row) p = (?A, row + 2)"
    using row Cons.prems(1) by (intro points_mat_step_rows) auto
  have shape: "\<forall>r \<in> set ?A. length r = 8"
  proof
    fix r assume "r \<in> set ?A"
    then have "r \<in> insert (pair_rows p ! 1) (set (A[row := pair_rows p ! 0]))"
      using set_update_subset_insert [of "A[row := pair_rows p ! 0]" "Suc row" "pair_rows p ! 1"]
      by blast
    then have "r \<in> insert (pair_rows p ! 1) (insert (pair_rows p ! 0) (set A))"
      using set_update_subset_insert [of A row "pair_rows p ! 0"] by blast
    moreover have "length (pair_rows p ! 0) = 8" "length (pair_rows p ! 1) = 8"
      by (cases p; auto simp: pair_rows_def)+
    ultimately show "length r = 8" using Cons.prems(1) by auto
  qed
  have bound: "(row + 2) + 2 * length ps \<le> length ?A" using Cons.prems(2) by simp
  have tk: "take (row + 2) ?A = take row A @ pair_rows p"
  proof -
    have "take (row + 2) ?A = take (Suc (Suc row)) ?A" by simp
    also have "\<dots> = take (Suc row) ?A @ [?A ! Suc row]"
      using row by (intro take_Suc_conv_app_nth) simp
    also have "take (Suc row) ?A = take row ?A @ [?A ! row]"
      using row by (intro take_Suc_conv_app_nth) simp
    finally have "take (row + 2) ?A = take row ?A @ [?A ! row, ?A ! Suc row]" by simp
    moreover have "take row ?A = take row A" by simp
    moreover have "?A ! row = pair_rows p ! 0" "?A ! Suc row = pair_rows p ! 1"
      using row by simp_all
    ultimately show ?thesis using pair_rows_as_list [of p] by simp
  qed
  have dr: "drop (row + 2 + 2 * length ps) ?A = drop (row + 2 * length (p # ps)) A"
    by simp
  have "foldl points_mat_step (A, row) (p # ps) = foldl points_mat_step (?A, row + 2) ps"
    using step by simp
  also have "\<dots> = (take (row + 2) ?A @ concat (map pair_rows ps)
                      @ drop (row + 2 + 2 * length ps) ?A, row + 2 + 2 * length ps)"
    using shape bound by (rule Cons.IH)
  finally show ?case
    by (simp only: tk dr) simp
qed

lemma compute_points_mat_rows:
  assumes "length src_points = length target_points"
  shows "compute_points_mat junk src_points target_points
           = concat (map pair_rows (zip src_points target_points))"
proof -
  let ?A = "np_empty junk (2 * length src_points) 8"
  have "\<forall>r \<in> set ?A. length r = 8" by (auto simp: np_empty_def)
  moreover have "0 + 2 * length (zip src_points target_points) \<le> length ?A"
    using assms by (simp add: np_empty_def)
  ultimately have "foldl points_mat_step (?A, 0) (zip src_points target_points)
      = (take 0 ?A @ concat (map pair_rows (zip src_points target_points))
           @ drop (0 + 2 * length (zip src_points target_points)) ?A,
         0 + 2 * length (zip src_points target_points))"
    by (rule foldl_points_mat_step)
  then show ?thesis
    using assms by (simp add: compute_points_mat_def np_empty_def)
qed


lemma upt_8: "[0 ..< 8] = [0, 1, 2, 3, 4, 5, 6, 7]"
  by (simp add: upt_rec)

lemma lstsq_eval:
  assumes "length b = length A" "gram n A = G" "mat_vec (columns n A) b = c"
    "map (mat_vec G) G = G2" "mat_vec G (solve n G2 c) = x"
  shows "lstsq n A b = Inr x"
  using assms by (simp add: lstsq_def)

lemma scale2_A: "compute_points_mat junk [(0, 0), (10, 0), (10, 10), (0, 10)] [(0, 0), (20, 0), (20, 20), (0, 20)] = [[0, 0, 1, 0, 0, 0, 0, 0], [0, 0, 0, 0, 0, 1, 0, 0], [10, 0, 1, 0, 0, 0, -200, 0], [0, 0, 0, 10, 0, 1, 0, 0], [10, 10, 1, 0, 0, 0, -200, -200], [0, 0, 0, 10, 10, 1, -200, -200], [0, 10, 1, 0, 0, 0, 0, 0], [0, 0, 0, 0, 10, 1, 0, -200]]"
  by (simp add: compute_points_mat_rows pair_rows_def)

lemma scale2_G: "gram 8 [[0, 0, 1, 0, 0, 0, 0, 0], [0, 0, 0, 0, 0, 1, 0, 0], [10, 0, 1, 0, 0, 0, -200, 0], [0, 0, 0, 10, 0, 1, 0, 0], [10, 10, 1, 0, 0, 0, -200, -200], [0, 0, 0, 10, 10, 1, -200, -200], [0, 10, 1, 0, 0, 0, 0, 0], [0, 0, 0, 0, 10, 1, 0, -200]] = [[200, 100, 20, 0, 0, 0, -4000, -2000], [100, 200, 20, 0, 0, 0, -2000, -2000], [20, 20, 4, 0, 0, 0, -400, -200], [0, 0, 0, 200, 100, 20, -2000, -2000], [0, 0, 0, 100, 200, 20, -2000, -4000], [0, 0, 0, 20, 20, 4, -200, -400], [-4000, -2000, -400, -2000, -2000, -200, 120000, 80000], [-2000, -2000, -200, -2000, -4000, -400, 80000, 120000]]"
  by (simp add: gram_def columns_def dot_def upt_8)

lemma scale2_c: "mat_vec (columns 8 [[0, 0, 1, 0, 0, 0, 0, 0], [0, 0, 0, 0, 0, 1, 0, 0], [10, 0, 1, 0, 0, 0, -200, 0], [0, 0, 0, 10, 0, 1, 0, 0], [10, 10, 1, 0, 0, 0, -200, -200], [0, 0, 0, 10, 10, 1, -200, -200], [0, 10, 1, 0, 0, 0, 0, 0], [0, 0, 0, 0, 10, 1, 0, -200]]) [0, 0, 20, 0, 20, 20, 0, 20] = [400, 200, 40, 200, 400, 40, -12000, -12000]"
  by (simp add: mat_vec_def columns_def dot_def upt_8)

lemma scale2_G2: "map (mat_vec [[200, 100, 20, 0, 0, 0, -4000, -2000], [100, 200, 20, 0, 0, 0, -2000, -2000], [20, 20, 4, 0, 0, 0, -400, -200], [0, 0, 0, 200, 100, 20, -2000, -2000], [0, 0, 0, 100, 200, 20, -2000, -4000], [0, 0, 0, 20, 20, 4, -200, -400], [-4000, -2000, -400, -2000, -2000, -200, 120000, 80000], [-2000, -2000, -200, -2000, -4000, -400, 80000, 120000]]) [[200, 100, 20, 0, 0, 0, -4000, -2000], [100, 200, 20, 0, 0, 0, -2000, -2000], [20, 20, 4, 0, 0, 0, -400, -200], [0, 0, 0, 200, 100, 20, -2000, -2000], [0, 0, 0, 100, 200, 20, -2000, -4000], [0, 0, 0, 20, 20, 4, -200, -400], [-4000, -2000, -400, -2000, -2000, -200, 120000, 80000], [-2000, -2000, -200, -2000, -4000, -400, 80000, 120000]] = ([[20050400, 12040400, 2006080, 12000000, 16000000, 1600000, -641008000, -560604000], [12040400, 8050400, 1206080, 8000000, 12000000, 1200000, -400808000, -400604000], [2006080, 1206080, 200816, 1200000, 1600000, 160000, -64121600, -56080800], [12000000, 8000000, 1200000, 8050400, 12040400, 1206080, -400604000, -400808000], [16000000, 12000000, 1600000, 12040400, 20050400, 2006080, -560604000, -641008000], [1600000, 1200000, 160000, 1206080, 2006080, 200816, -56080800, -64121600], [-641008000, -400808000, -64121600, -400604000, -560604000, -56080800, 20828200000, 19224160000], [-560604000, -400604000, -56080800, -400808000, -641008000, -64121600, 19224160000, 20828200000]] :: mat)"
  by (simp add: mat_vec_def dot_def)

lemma scale2_x: "mat_vec [[200, 100, 20, 0, 0, 0, -4000, -2000], [100, 200, 20, 0, 0, 0, -2000, -2000], [20, 20, 4, 0, 0, 0, -400, -200], [0, 0, 0, 200, 100, 20, -2000, -2000], [0, 0, 0, 100, 200, 20, -2000, -4000], [0, 0, 0, 20, 20, 4, -200, -400], [-4000, -2000, -400, -2000, -2000, -200, 120000, 80000], [-2000, -2000, -200, -2000, -4000, -400, 80000, 120000]] (solve 8 [[20050400, 12040400, 2006080, 12000000, 16000000, 1600000, -641008000, -560604000], [12040400, 8050400, 1206080, 8000000, 12000000, 1200000, -400808000, -400604000], [2006080, 1206080, 200816, 1200000, 1600000, 160000, -64121600, -56080800], [12000000, 8000000, 1200000, 8050400, 12040400, 1206080, -400604000, -400808000], [16000000, 12000000, 1600000, 12040400, 20050400, 2006080, -560604000, -641008000], [1600000, 1200000, 160000, 1206080, 2006080, 200816, -56080800, -64121600], [-641008000, -400808000, -64121600, -400604000, -560604000, -56080800, 20828200000, 19224160000], [-560604000, -400604000, -56080800, -400808000, -641008000, -64121600, 19224160000, 20828200000]] [400, 200, 40, 200, 400, 40, -12000, -12000]) = [2, 0, 0, 0, 2, 0, 0, 0]"
  by (simp add: solve_def upt_8 reduce_row_def mat_vec_def dot_def)

lemma scale2_lstsq: "lstsq 8 [[0, 0, 1, 0, 0, 0, 0, 0], [0, 0, 0, 0, 0, 1, 0, 0], [10, 0, 1, 0, 0, 0, -200, 0], [0, 0, 0, 10, 0, 1, 0, 0], [10, 10, 1, 0, 0, 0, -200, -200], [0, 0, 0, 10, 10, 1, -200, -200], [0, 10, 1, 0, 0, 0, 0, 0], [0, 0, 0, 0, 10, 1, 0, -200]] [0, 0, 20, 0, 20, 20, 0, 20] = Inr [2, 0, 0, 0, 2, 0, 0, 0]"
  by (rule lstsq_eval [OF _ scale2_G scale2_c scale2_G2 scale2_x]) simp

lemma scale2_H: "compute_homography_mat junk [(0, 0), (10, 0), (10, 10), (0, 10)] [(0, 0), (20, 0), (20, 20), (0, 20)] = Inr [[2, 0, 0], [0, 2, 0], [0, 0, 1]]"
  by (simp add: compute_homography_mat_def scale2_A flatten_def scale2_lstsq reshape_3_3_def)









lemma coincident_A:
  "compute_points_mat junk [(0, 0), (0, 0), (0, 0), (0, 0)] [(x0, y0), (x1, y1), (x2, y2), (x3, y3)]
     = [[0, 0, 1, 0, 0, 0, 0, 0], [0, 0, 0, 0, 0, 1, 0, 0], [0, 0, 1, 0, 0, 0, 0, 0], [0, 0, 0, 0, 0, 1, 0, 0], [0, 0, 1, 0, 0, 0, 0, 0], [0, 0, 0, 0, 0, 1, 0, 0], [0, 0, 1, 0, 0, 0, 0, 0], [0, 0, 0, 0, 0, 1, 0, 0]]"
  by (simp add: compute_points_mat_rows pair_rows_def)

lemma coincident_G: "gram 8 [[0, 0, 1, 0, 0, 0, 0, 0], [0, 0, 0, 0, 0, 1, 0, 0], [0, 0, 1, 0, 0, 0, 0, 0], [0, 0, 0, 0, 0, 1, 0, 0], [0, 0, 1, 0, 0, 0, 0, 0], [0, 0, 0, 0, 0, 1, 0, 0], [0, 0, 1, 0, 0, 0, 0, 0], [0, 0, 0, 0, 0, 1, 0, 0]] = [[0, 0, 0, 0, 0, 0, 0, 0], [0, 0, 0, 0, 0, 0, 0, 0], [0, 0, 4, 0, 0, 0, 0, 0], [0, 0, 0, 0, 0, 0, 0, 0], [0, 0, 0, 0, 0, 0, 0, 0], [0, 0, 0, 0, 0, 4, 0, 0], [0, 0, 0, 0, 0, 0, 0, 0], [0, 0, 0, 0, 0, 0, 0, 0]]"
  by (simp add: gram_def columns_def dot_def upt_8)

lemma coincident_c:
  "mat_vec (columns 8 [[0, 0, 1, 0, 0, 0, 0, 0], [0, 0, 0, 0, 0, 1, 0, 0], [0, 0, 1, 0, 0, 0, 0, 0], [0, 0, 0, 0, 0, 1, 0, 0], [0, 0, 1, 0, 0, 0, 0, 0], [0, 0, 0, 0, 0, 1, 0, 0], [0, 0, 1, 0, 0, 0, 0, 0], [0, 0, 0, 0, 0, 1, 0, 0]]) [x0, y0, x1, y1, x2, y2, x3, y3]
     = [0, 0, x0 + x1 + x2 + x3, 0, 0, y0 + y1 + y2 + y3, 0, 0]"
  by (simp add: mat_vec_def columns_def dot_def upt_8)

lemma coincident_G2: "map (mat_vec [[0, 0, 0, 0, 0, 0, 0, 0], [0, 0, 0, 0, 0, 0, 0, 0], [0, 0, 4, 0, 0, 0, 0, 0], [0, 0, 0, 0, 0, 0, 0, 0], [0, 0, 0, 0, 0, 0, 0, 0], [0, 0, 0, 0, 0, 4, 0, 0], [0, 0, 0, 0, 0, 0, 0, 0], [0, 0, 0, 0, 0, 0, 0, 0]]) [[0, 0, 0, 0, 0, 0, 0, 0], [0, 0, 0, 0, 0, 0, 0, 0], [0, 0, 4, 0, 0, 0, 0, 0], [0, 0, 0, 0, 0, 0, 0, 0], [0, 0, 0, 0, 0, 0, 0, 0], [0, 0, 0, 0, 0, 4, 0, 0], [0, 0, 0, 0, 0, 0, 0, 0], [0, 0, 0, 0, 0, 0, 0, 0]] = ([[0, 0, 0, 0, 0, 0, 0, 0], [0, 0, 0, 0, 0, 0, 0, 0], [0, 0, 16, 0, 0, 0, 0, 0], [0, 0, 0, 0, 0, 0, 0, 0], [0, 0, 0, 0, 0, 0, 0, 0], [0, 0, 0, 0, 0, 16, 0, 0], [0, 0, 0, 0, 0, 0, 0, 0], [0, 0, 0, 0, 0, 0, 0, 0]] :: mat)"
  by (simp add: mat_vec_def dot_def)

lemma coincident_x:
  "mat_vec [[0, 0, 0, 0, 0, 0, 0, 0], [0, 0, 0, 0, 0, 0, 0, 0], [0, 0, 4, 0, 0, 0, 0, 0], [0, 0, 0, 0, 0, 0, 0, 0], [0, 0, 0, 0, 0, 0, 0, 0], [0, 0, 0, 0, 0, 4, 0, 0], [0, 0, 0, 0, 0, 0, 0, 0], [0, 0, 0, 0, 0, 0, 0, 0]] (solve 8 [[0, 0, 0, 0, 0, 0, 0, 0], [0, 0, 0, 0, 0, 0, 0, 0], [0, 0, 16, 0, 0, 0, 0, 0], [0, 0, 0, 0, 0, 0, 0, 0], [0, 0, 0, 0, 0, 0, 0, 0], [0, 0, 0, 0, 0, 16, 0, 0], [0, 0, 0, 0, 0, 0, 0, 0], [0, 0, 0, 0, 0, 0, 0, 0]] [0, 0, x0 + x1 + x2 + x3, 0, 0, y0 + y1 + y2 + y3, 0, 0])
     = [0, 0, (x0 + x1 + x2 + x3) / 4, 0, 0, (y0 + y1 + y2 + y3) / 4, 0, 0]"
  by (simp add: solve_def upt_8 reduce_row_def mat_vec_def dot_def)

lemma coincident_lstsq:
  "lstsq 8 [[0, 0, 1, 0, 0, 0, 0, 0], [0, 0, 0, 0, 0, 1, 0, 0], [0, 0, 1, 0, 0, 0, 0, 0], [0, 0, 0, 0, 0, 1, 0, 0], [0, 0, 1, 0, 0, 0, 0, 0], [0, 0, 0, 0, 0, 1, 0, 0], [0, 0, 1, 0, 0, 0, 0, 0], [0, 0, 0, 0, 0, 1, 0, 0]] [x0, y0, x1, y1, x2, y2, x3, y3]
     = Inr [0, 0, (x0 + x1 + x2 + x3) / 4, 0, 0, (y0 + y1 + y2 + y3) / 4, 0, 0]"
  by (rule lstsq_eval [OF _ coincident_G coincident_c coincident_G2 coincident_x]) simp

lemma coincident_H:
  "compute_homography_mat junk [(0, 0), (0, 0), (0, 0), (0, 0)] [(x0, y0), (x1, y1), (x2, y2), (x3, y3)]
     = Inr [[0, 0, (x0 + x1 + x2 + x3) / 4], [0, 0, (y0 + y1 + y2 + y3) / 4], [0, 0, 1]]"
  by (simp add: compute_homography_mat_def coincident_A flatten_def coincident_lstsq reshape_3_3_def)


lemma length_concat_pair_rows: "length (concat (map pair_rows ps)) = 2 * length ps"
  by (induction ps) (simp_all add: pair_rows_shape)






lemma length_gram: "length (gram n A) = n"
  by (simp add: gram_def columns_def Let_def)

lemma lstsq_length:
  "lstsq n A b = Inr x \<Longrightarrow> length x = n"
  by (auto simp: lstsq_def Let_def mat_vec_def length_gram split: if_splits)










text \<open>
  C8. For the source points \<open>(0,0), (10,0), (10,10), (0,10)\<close> and the target points
  \<open>(0,0), (20,0), (20,20), (0,20)\<close> the estimator returns \<open>diag(2, 2, 1)\<close>, and that matrix
  sends \<open>(5,5)\<close> to \<open>(10,10)\<close>. (Exact arithmetic: the tolerance of the claim is 0.)
\<close>

theorem scale_by_two_scenario:
  "compute_homography_mat junk [(0, 0), (10, 0), (10, 10), (0, 10)] [(0, 0), (20, 0), (20, 20), (0, 20)]
     = Inr [[2, 0, 0], [0, 2, 0], [0, 0, 1]]
   \<and> transform_points [(5, 5)] [[2, 0, 0], [0, 2, 0], [0, 0, 1]] = [(Some 10, Some 10)]"
  by (simp add: scale2_H transform_points_def homogeneous_def dot_def fdiv_def)

subsection \<open>RANSAC on coincident source points\<close>

lemma length_4_explicit:
  assumes "length (r :: 'a list) = 4"
  obtains a0 a1 a2 a3 where "r = [a0, a1, a2, a3]"
proof -
  from assms obtain a0 r1 where 0: "r = a0 # r1" "length r1 = 3" by (cases r) auto
  then obtain a1 r2 where 1: "r1 = a1 # r2" "length r2 = 2" by (cases r1) auto
  then obtain a2 r3 where 2: "r2 = a2 # r3" "length r3 = 1" by (cases r2) auto
  then obtain a3 where 3: "r3 = [a3]" by (cases r3) auto
  show ?thesis using that 0 1 2 3 by simp
qed

lemma full_sample_set:
  assumes "valid_sample 4 4 idx"
  shows "set idx = {0, 1, 2, 3}"
proof -
  have c: "card (set idx) = 4"
    using assms by (simp add: valid_sample_def distinct_card)
  have "\<forall>i \<in> set idx. i < 4"
    using assms by (simp add: valid_sample_def list_all_iff)
  moreover have "i = 0 \<or> i = 1 \<or> i = 2 \<or> i = 3" if "i < 4" for i :: nat
    using that by arith
  ultimately have sub: "set idx \<subseteq> {0, 1, 2, 3}"
    by blast
  have fin: "finite {0, 1, 2, 3 :: nat}" by simp
  have "card {0, 1, 2, 3 :: nat} = 4" by simp
  then have "card (set idx) = card {0, 1, 2, 3 :: nat}" using c by simp
  with fin sub show ?thesis by (rule card_subset_eq)
qed

lemma full_sample_sum:
  fixes f :: "nat \<Rightarrow> real"
  assumes "valid_sample 4 4 idx"
  shows "sum_list (map f idx) = f 0 + f 1 + f 2 + f 3"
proof -
  have "sum_list (map f idx) = sum f (set idx)"
    using assms by (intro sum_list_distinct_conv_sum_set) (simp add: valid_sample_def)
  also have "\<dots> = sum f {0, 1, 2, 3}"
    using full_sample_set [OF assms] by simp
  finally show ?thesis by simp
qed

lemma keep_coincident: "keep_points coincident_src = Inr src4"
  by (simp add: keep_points_def coincident_src_def src4_def)

lemma keep_spread: "keep_points spread_tgt = Inr tgt4"
  by (simp add: keep_points_def spread_tgt_def tgt4_def)

lemma inliers_under_mean: "inliers_under [[0, 0, 5], [0, 0, 5], [0, 0, 1]] src4 tgt4 1 = Inr []"
  by (simp add: inliers_under_def transform_points_def homogeneous_def dot_def fdiv_def
      broadcast_rows_def src4_def tgt4_def row_dist_def dist_le_def)

lemma sample_round:
  assumes v: "valid_sample 4 4 idx"
  shows "get_inlier_indices junk src4 tgt4 1 idx = Inr []"
proof -
  have "length idx = 4" using v by (simp add: valid_sample_def)
  then obtain i0 i1 i2 i3 where idx: "idx = [i0, i1, i2, i3]"
    by (rule length_4_explicit)
  have lt: "i0 < 4" "i1 < 4" "i2 < 4" "i3 < 4"
    using v by (simp_all add: valid_sample_def idx)
  have s: "take_rows src4 idx = Inr [(0, 0), (0, 0), (0, 0), (0, 0)]"
    using lt by (auto simp: take_rows_def idx src4_def nth_Cons' )
  have t: "take_rows tgt4 idx
      = Inr [(fst (tgt4 ! i0), snd (tgt4 ! i0)), (fst (tgt4 ! i1), snd (tgt4 ! i1)),
             (fst (tgt4 ! i2), snd (tgt4 ! i2)), (fst (tgt4 ! i3), snd (tgt4 ! i3))]"
    using lt by (simp add: take_rows_def idx tgt4_def)
  have sx: "fst (tgt4 ! i0) + fst (tgt4 ! i1) + fst (tgt4 ! i2) + fst (tgt4 ! i3) = 20"
    using full_sample_sum [OF v, of "\<lambda>i. fst (tgt4 ! i)"] by (simp add: idx tgt4_def)
  have sy: "snd (tgt4 ! i0) + snd (tgt4 ! i1) + snd (tgt4 ! i2) + snd (tgt4 ! i3) = 20"
    using full_sample_sum [OF v, of "\<lambda>i. snd (tgt4 ! i)"] by (simp add: idx tgt4_def)
  have H: "compute_homography_mat junk [(0, 0), (0, 0), (0, 0), (0, 0)]
      [(fst (tgt4 ! i0), snd (tgt4 ! i0)), (fst (tgt4 ! i1), snd (tgt4 ! i1)),
       (fst (tgt4 ! i2), snd (tgt4 ! i2)), (fst (tgt4 ! i3), snd (tgt4 ! i3))]
      = Inr [[0, 0, 5], [0, 0, 5], [0, 0, 1]]"
    by (simp only: coincident_H sx sy) simp
  show ?thesis
    by (simp only: get_inlier_indices_def s t H sum.case inliers_under_mean)
qed

lemma loop_all_empty:
  assumes "\<forall>k \<in> set ks. valid_sample 4 4 (choice k)"
  shows "ransac_loop junk choice src4 tgt4 1 4 4 ks hist
           = Inr (fst hist @ replicate (length ks) [], snd hist @ replicate (length ks) 0)"
  using assms
proof (induction ks arbitrary: hist)
  case Nil
  then show ?case by simp
next
  case (Cons k ks)
  have r: "get_inlier_indices junk src4 tgt4 1 (choice k) = Inr []"
    using Cons.prems by (intro sample_round) simp
  have l: "\<not> length src4 < 4" by (simp add: src4_def)
  have "ransac_loop junk choice src4 tgt4 1 4 4 (k # ks) hist
      = ransac_loop junk choice src4 tgt4 1 4 4 ks (fst hist @ [[]], snd hist @ [0])"
    using l by (simp add: r Let_def)
  also have "\<dots> = Inr (fst (fst hist @ [[]], snd hist @ [0]) @ replicate (length ks) [],
      snd (fst hist @ [[]], snd hist @ [0 :: nat]) @ replicate (length ks) 0)"
    using Cons.prems by (intro Cons.IH) simp
  finally show ?case by (simp add: replicate_app_Cons_same)
qed

lemma argmax_from_constant: "argmax_from b v i (replicate m v) = b"
  by (induction m arbitrary: i) simp_all

lemma np_argmax_zeros: "0 < N \<Longrightarrow> np_argmax (replicate N 0) = Inr 0"
  by (cases N) (simp_all add: np_argmax_def argmax_from_constant)

text \<open>
  C2. The claim (and the docstring of \<^verbatim>\<open>get_inliers\<close>): the returned inlier set has at
  least \<open>s\<close> points. For four correspondences with the same source point \<open>(0,0)\<close> and the
  targets \<open>(0,0), (10,0), (0,10), (10,10)\<close>, with the default \<open>d = 1\<close> and \<open>s = 4\<close>, every
  sample fits the homography that sends everything to \<open>(5,5)\<close>, no point is within \<open>d\<close> of
  its target, and the function returns two empty arrays: 0 points, fewer than \<open>s = 4\<close>.
  This holds for every number of iterations \<open>N > 0\<close> and every outcome of the sampling.
\<close>

theorem get_inliers_fewer_than_sample:
  assumes N: "0 < N" and samples: "\<forall>k < N. valid_sample 4 4 (choice k)"
  shows "get_inliers junk choice coincident_src spread_tgt 1 4 N T = Inr ([], [])"
proof -
  have "\<forall>k \<in> set [0 ..< N]. valid_sample 4 4 (choice k)"
    using samples by simp
  then have loop: "ransac_loop junk choice src4 tgt4 1 4 4 [0 ..< N] ([], [])
      = Inr (replicate N [], replicate N 0)"
    using loop_all_empty [of "[0 ..< N]" choice junk "([], [])"] by simp
  have m: "min (length src4) 10 = 4" by (simp add: src4_def)
  have n0: "replicate N ([] :: nat list) ! 0 = []" using N by simp
  show ?thesis
    using N
    by (simp add: get_inliers_def coincident_src_def spread_tgt_def
        keep_coincident [unfolded coincident_src_def] keep_spread [unfolded spread_tgt_def]
        m loop np_argmax_zeros n0 take_rows_def)
qed

theorem get_inliers_fewer_than_sample_witness:
  "(0 :: nat) < 2000
   \<and> get_inliers (\<lambda>r c. 0) alternating_choice coincident_src spread_tgt 1 4 2000 None = Inr ([], [])
   \<and> length (fst ([] :: point list, [] :: point list)) < 4"
proof -
  have v: "\<forall>k < 2000. valid_sample 4 4 (alternating_choice k)"
    by (simp add: valid_sample_def alternating_choice_def)
  have "(0 :: nat) < 2000" by simp
  then show ?thesis
    using get_inliers_fewer_than_sample [OF _ v, of "\<lambda>r c. 0" None] by simp
qed

subsection \<open>Warping\<close>

lemma those_map_Some: "those (map Some ys) = Some ys"
  by (induction ys) simp_all


lemma foldl_min_Min:
  fixes y :: real
  shows "foldl min y ys = Min (set (y # ys))"
proof -
  have "foldl min y ys = fold min ys y"
    by (simp add: foldl_conv_fold min.commute)
  then show ?thesis by (simp only: Min.set_eq_fold)
qed

lemma foldl_max_Max:
  fixes y :: real
  shows "foldl max y ys = Max (set (y # ys))"
proof -
  have "foldl max y ys = fold max ys y"
    by (simp add: foldl_conv_fold max.commute)
  then show ?thesis by (simp only: Max.set_eq_fold)
qed

lemma column_extremes_Some:
  assumes "ys \<noteq> []"
  shows "column_extremes (map Some ys) = Inr (Min (set ys), Max (set ys))"
proof -
  obtain y rest where ys: "ys = y # rest" using assms by (cases ys) auto
  have "those (map Some ys) = Some ys" by (rule those_map_Some)
  then have "column_extremes (map Some ys) = Inr (foldl min (hd ys) (tl ys), foldl max (hd ys) (tl ys))"
    by (simp add: column_extremes_def ys del: those.simps)
  then show ?thesis
    by (simp only: ys list.sel foldl_min_Min foldl_max_Max)
qed



lemma shape_set_pixel: "height (set_pixel t v u c x) = height t \<and> width (set_pixel t v u c x) = width t"
  by (simp add: set_pixel_def)

lemma shape_fill_batch:
  "height (fill_batch spline img min_u min_v channel t ps) = height t
   \<and> width (fill_batch spline img min_u min_v channel t ps) = width t"
proof (induction ps arbitrary: t)
  case Nil
  then show ?case by (simp add: fill_batch_def)
next
  case (Cons p ps)
  obtain u v mu mv where p: "p = ((u, v), (mu, mv))" by (cases p) auto
  have "fill_batch spline img min_u min_v channel t (p # ps)
      = fill_batch spline img min_u min_v channel
          (set_pixel t (nat (v - min_v)) (nat (u - min_u)) channel (spline img channel mv mu)) ps"
    by (simp add: fill_batch_def p)
  then show ?case using Cons.IH shape_set_pixel by metis
qed

lemma shape_foldl_batches:
  "height (foldl (\<lambda>target i. fill_batch spline img min_u min_v channel target (f i)) t is) = height t
   \<and> width (foldl (\<lambda>target i. fill_batch spline img min_u min_v channel target (f i)) t is) = width t"
  by (induction "is" arbitrary: t) (simp_all add: shape_fill_batch)

lemma fill_channel_shape:
  assumes "fill_channel spline img min_u min_v pts ipts t channel batch_size = Inr t'"
  shows "height t' = height t \<and> width t' = width t"
proof -
  let ?f = "\<lambda>i. zip (take ((i + 1) * batch_size - i * batch_size) (drop (i * batch_size) pts))
                 (take ((i + 1) * batch_size - i * batch_size) (drop (i * batch_size) ipts))"
  have "t' = foldl (\<lambda>target i. fill_batch spline img min_u min_v channel target (?f i))
          t [0 ..< length ipts div batch_size + 1]"
    using assms by (simp add: fill_channel_def Let_def split: if_splits)
  then show ?thesis
    using shape_foldl_batches [of spline img min_u min_v channel ?f t
        "[0 ..< length ipts div batch_size + 1]"]
    by simp
qed

lemma fill_channel_defined:
  assumes "4 \<le> height img" "4 \<le> width img"
  shows "\<exists>t'. fill_channel spline img min_u min_v pts ipts t channel batch_size = Inr t'"
  using assms by (simp add: fill_channel_def Let_def)

lemma warp_image_shape:
  assumes w: "warp_image spline img H = Inr (out, off_u, off_v)"
  shows "\<exists>max_u max_v. warp_bounds (height img) (width img) H = Inr (off_u, max_u, off_v, max_v)
           \<and> height out = nat (max_v - off_v) \<and> width out = nat (max_u - off_u)"
proof -
  have g: "\<not> (length H \<noteq> 3 \<or> (\<exists>r \<in> set H. length r \<noteq> 3))"
  proof
    assume "length H \<noteq> 3 \<or> (\<exists>r \<in> set H. length r \<noteq> 3)"
    then have "warp_image spline img H = Inl ValueError"
      by (simp only: warp_image_def if_True)
    then show False using w by simp
  qed
  have w1: "warp_image spline img H =
      (case np_linalg_inv H of
           Inl e \<Rightarrow> Inl e
         | Inr H_inv0 \<Rightarrow>
             (let H_inv = normalise H_inv0
              in case warp_bounds (height img) (width img) H of
                   Inl e \<Rightarrow> Inl e
                 | Inr (min_u, max_u, min_v, max_v) \<Rightarrow>
                     (let mapped_u_range = [min_u .. max_u - 1];
                          mapped_v_range = [min_v .. max_v - 1];
                          target_image = np_zeros (nat (max_v - min_v)) (nat (max_u - min_u));
                          grid = transform_grid_opt mapped_u_range mapped_v_range H_inv
                      in case fill_channel spline img min_u min_v (fst grid) (snd grid)
                                target_image 0 64 of
                           Inl e \<Rightarrow> Inl e
                         | Inr t0 \<Rightarrow>
                             (case fill_channel spline img min_u min_v (fst grid) (snd grid)
                                     t0 1 64 of
                                Inl e \<Rightarrow> Inl e
                              | Inr t1 \<Rightarrow>
                                  (case fill_channel spline img min_u min_v (fst grid) (snd grid)
                                          t1 2 64 of
                                     Inl e \<Rightarrow> Inl e
                                   | Inr t2 \<Rightarrow> Inr (t2, min_u, min_v))))))"
    using g by (simp only: warp_image_def if_False)
  obtain H_inv0 where i: "np_linalg_inv H = Inr H_inv0"
    using w unfolding w1 by (cases "np_linalg_inv H") simp_all
  obtain min_u max_u min_v max_v where
    b: "warp_bounds (height img) (width img) H = Inr (min_u, max_u, min_v, max_v)"
    using w unfolding w1 i
    by (cases "warp_bounds (height img) (width img) H") (simp_all add: Let_def, auto)
  let ?grid = "transform_grid_opt [min_u .. max_u - 1] [min_v .. max_v - 1] (normalise H_inv0)"
  let ?f0 = "fill_channel spline img min_u min_v (fst ?grid) (snd ?grid)
               (np_zeros (nat (max_v - min_v)) (nat (max_u - min_u))) 0 64"
  have w2: "warp_image spline img H =
      (case ?f0 of
         Inl e \<Rightarrow> Inl e
       | Inr t0 \<Rightarrow>
           (case fill_channel spline img min_u min_v (fst ?grid) (snd ?grid) t0 1 64 of
              Inl e \<Rightarrow> Inl e
            | Inr t1 \<Rightarrow>
                (case fill_channel spline img min_u min_v (fst ?grid) (snd ?grid) t1 2 64 of
                   Inl e \<Rightarrow> Inl e
                 | Inr t2 \<Rightarrow> Inr (t2, min_u, min_v))))"
    unfolding w1 i by (simp add: b Let_def del: One_nat_def)
  obtain t0 where f0: "?f0 = Inr t0"
    using w unfolding w2 by (cases ?f0) simp_all
  let ?f1 = "fill_channel spline img min_u min_v (fst ?grid) (snd ?grid) t0 1 64"
  obtain t1 where f1: "?f1 = Inr t1"
    using w unfolding w2 f0 by (cases ?f1) simp_all
  let ?f2 = "fill_channel spline img min_u min_v (fst ?grid) (snd ?grid) t1 2 64"
  obtain t2 where f2: "?f2 = Inr t2"
    using w unfolding w2 f0 by (cases ?f2) (simp_all add: f1 del: One_nat_def)
  have r: "(out, off_u, off_v) = (t2, min_u, min_v)"
    using w unfolding w2 f0 by (simp add: f1 f2 del: One_nat_def)
  have "height t2 = nat (max_v - min_v) \<and> width t2 = nat (max_u - min_u)"
    using fill_channel_shape [OF f0] fill_channel_shape [OF f1] fill_channel_shape [OF f2]
    by (simp add: np_zeros_def)
  then show ?thesis using b r by auto
qed

lemma warp_image_defined:
  assumes H: "length H = 3" "\<forall>r \<in> set H. length r = 3" and d: "det3 H \<noteq> 0"
    and sz: "4 \<le> height img" "4 \<le> width img"
    and b: "warp_bounds (height img) (width img) H = Inr (min_u, max_u, min_v, max_v)"
  shows "\<exists>out. warp_image spline img H = Inr (out, min_u, min_v)"
proof -
  let ?grid = "transform_grid_opt [min_u .. max_u - 1] [min_v .. max_v - 1]
      (normalise (map (map (\<lambda>x. x / det3 H)) (adjugate3 H)))"
  obtain t0 where f0: "fill_channel spline img min_u min_v (fst ?grid) (snd ?grid)
               (np_zeros (nat (max_v - min_v)) (nat (max_u - min_u))) 0 64 = Inr t0"
    using fill_channel_defined [OF sz] by blast
  obtain t1 where f1: "fill_channel spline img min_u min_v (fst ?grid) (snd ?grid) t0 1 64 = Inr t1"
    using fill_channel_defined [OF sz] by blast
  obtain t2 where f2: "fill_channel spline img min_u min_v (fst ?grid) (snd ?grid) t1 2 64 = Inr t2"
    using fill_channel_defined [OF sz] by blast
  have "warp_image spline img H = Inr (t2, min_u, min_v)"
    using H d by (simp add: warp_image_def np_linalg_inv_def b Let_def f0 f1 f2 del: One_nat_def)
  then show ?thesis by blast
qed




lemma transform_points_identity:
  "transform_points pts identity3 = map (\<lambda>p. (Some (fst p), Some (snd p))) pts"
  by (auto simp: transform_points_def homogeneous_def identity3_def dot_def fdiv_def)

lemma set_grid_fst:
  assumes "V \<noteq> []"
  shows "fst ` set (concat (map (\<lambda>v. map (\<lambda>u. (u, v)) U) V)) = set U"
proof -
  obtain v0 where "v0 \<in> set V" using assms by (cases V) auto
  then show ?thesis by force
qed

lemma set_grid_snd:
  assumes "U \<noteq> []"
  shows "snd ` set (concat (map (\<lambda>v. map (\<lambda>u. (u, v)) U) V)) = set V"
proof -
  obtain u0 where "u0 \<in> set U" using assms by (cases U) auto
  then show ?thesis by force
qed

lemma Min_range: "0 < n \<Longrightarrow> Min ((\<lambda>k. real k) ` {0 ..< n}) = 0"
  by (intro Min_eqI) auto

lemma Max_range:
  assumes "0 < n"
  shows "Max ((\<lambda>k. real k) ` {0 ..< n}) = real (n - 1)"
proof (rule Max_eqI)
  show "finite ((\<lambda>k. real k) ` {0 ..< n})" by simp
  show "y \<le> real (n - 1)" if "y \<in> (\<lambda>k. real k) ` {0 ..< n}" for y
    using that by auto
  have "n - 1 \<in> {0 ..< n}" using assms by simp
  then show "real (n - 1) \<in> (\<lambda>k. real k) ` {0 ..< n}" by (rule imageI)
qed


lemma warp_bounds_identity:
  assumes "0 < rows" "0 < cols"
  shows "warp_bounds rows cols identity3 = Inr (0, int cols - 1, 0, int rows - 1)"
proof -
  let ?U = "map int [0 ..< cols]" and ?V = "map int [0 ..< rows]"
  let ?pts = "concat (map (\<lambda>v. map (\<lambda>u. (u, v)) ?U) ?V)"
  let ?us = "map (\<lambda>p. real_of_int (fst p)) ?pts" and ?vs = "map (\<lambda>p. real_of_int (snd p)) ?pts"
  have g: "snd (transform_grid ?U ?V identity3)
      = map (\<lambda>p. (Some (real_of_int (fst p)), Some (real_of_int (snd p)))) ?pts"
    by (simp add: transform_grid_def Let_def transform_points_identity case_prod_beta comp_def)
  have fu: "map fst (snd (transform_grid ?U ?V identity3)) = map Some ?us"
    by (simp only: g) (simp add: comp_def)
  have fv: "map snd (snd (transform_grid ?U ?V identity3)) = map Some ?vs"
    by (simp only: g) (simp add: comp_def)
  have U: "?U \<noteq> []" and V: "?V \<noteq> []" using assms by simp_all
  have "set ?us = real_of_int ` fst ` set ?pts" by (simp add: image_image)
  also have "\<dots> = real_of_int ` set ?U" by (rule arg_cong [OF set_grid_fst [OF V]])
  also have "\<dots> = (\<lambda>k. real k) ` {0 ..< cols}" by (simp add: image_image)
  finally have su: "set ?us = (\<lambda>k. real k) ` {0 ..< cols}" .
  have "set ?vs = real_of_int ` snd ` set ?pts" by (simp add: image_image)
  also have "\<dots> = real_of_int ` set ?V" by (rule arg_cong [OF set_grid_snd [OF U]])
  also have "\<dots> = (\<lambda>k. real k) ` {0 ..< rows}" by (simp add: image_image)
  finally have sv: "set ?vs = (\<lambda>k. real k) ` {0 ..< rows}" .
  have neu: "?us \<noteq> []" using su assms by auto
  have nev: "?vs \<noteq> []" using sv assms by auto
  have cu: "column_extremes (map Some ?us) = Inr (0, real (cols - 1))"
    using column_extremes_Some [OF neu] assms by (simp only: su Min_range Max_range)
  have cv: "column_extremes (map Some ?vs) = Inr (0, real (rows - 1))"
    using column_extremes_Some [OF nev] assms by (simp only: sv Min_range Max_range)
  have "warp_bounds rows cols identity3
      = Inr (py_int 0, py_int (real (cols - 1)), py_int 0, py_int (real (rows - 1)))"
    by (simp only: warp_bounds_def Let_def fu fv cu cv sum.case prod.case)
  moreover have "py_int (real (cols - 1)) = int cols - 1" "py_int (real (rows - 1)) = int rows - 1"
    using assms by (simp_all add: py_int_def of_nat_diff)
  ultimately show ?thesis by (simp add: py_int_def)
qed

lemma det3_identity: "det3 identity3 = 1"
  by (simp add: det3_def identity3_def)

text \<open>
  C3. The claim: warping with the identity returns an image of the same dimensions and
  pixels, with offsets 0. For every image that the interpolation accepts (at least 4 rows
  and 4 columns) the offsets are \<open>min_u = min_v = 0\<close>, but the output has one row and one
  column fewer than the input: the mapped grid spans \<open>0 .. width - 1\<close> and the canvas is
  \<^verbatim>\<open>np.arange(min_u, max_u)\<close>, which stops before \<open>max_u = width - 1\<close>.
\<close>

theorem identity_warp_drops_last_row_and_column:
  assumes sz: "4 \<le> height img" "4 \<le> width img"
  shows "\<exists>out. warp_image spline img identity3 = Inr (out, 0, 0)
           \<and> height out = height img - 1 \<and> width out = width img - 1"
proof -
  have b: "warp_bounds (height img) (width img) identity3
      = Inr (0, int (width img) - 1, 0, int (height img) - 1)"
    using sz by (intro warp_bounds_identity) auto
  have "length identity3 = 3" "\<forall>r \<in> set identity3. length r = 3" "det3 identity3 \<noteq> 0"
    by (simp_all add: det3_identity) (simp_all add: identity3_def)
  then obtain out where w: "warp_image spline img identity3 = Inr (out, 0, 0)"
    using warp_image_defined [OF _ _ _ sz b] by blast
  obtain max_u max_v where
    "warp_bounds (height img) (width img) identity3 = Inr (0, max_u, 0, max_v)"
    "height out = nat (max_v - 0)" "width out = nat (max_u - 0)"
    using warp_image_shape [OF w] by blast
  then have "height out = height img - 1 \<and> width out = width img - 1"
    using b by auto
  then show ?thesis using w by blast
qed

theorem identity_warp_drops_last_row_and_column_witness:
  "4 \<le> height ramp_image \<and> 4 \<le> width ramp_image
   \<and> (\<exists>out. warp_image nearest_spline ramp_image identity3 = Inr (out, 0, 0)
         \<and> height out = 3 \<and> width out = 3)"
  using identity_warp_drops_last_row_and_column [of ramp_image nearest_spline]
  by (simp add: ramp_image_def)






end
